theory Spec2Isabelle
  imports Main "HOL-Library.Word"
begin

unbundle bit_operations_syntax

section \<open>Characters and strings of the Python source\<close>

text \<open>
  A Python string is modelled as a \<open>string\<close>, the list of the bytes of its UTF-8
  encoding: an ASCII character is one \<open>char\<close> below 128, every other character is a
  sequence of \<open>char\<close>s from 128 on. The strings the program builds itself (identifiers,
  paths, URLs) are ASCII. Character classes are given by enumeration.
\<close>

definition is_ascii :: "char \<Rightarrow> bool" where
  "is_ascii c = (\<not> digit7 c)"

definition digit_chars :: string where
  "digit_chars = ''0123456789''"

definition upper_chars :: string where
  "upper_chars = ''ABCDEFGHIJKLMNOPQRSTUVWXYZ''"

definition lower_chars :: string where
  "lower_chars = ''abcdefghijklmnopqrstuvwxyz''"

definition is_digit :: "char \<Rightarrow> bool" where
  "is_digit c = (c \<in> set digit_chars)"

definition is_upper_alnum :: "char \<Rightarrow> bool" where
  "is_upper_alnum c = (c \<in> set digit_chars \<or> c \<in> set upper_chars)"

text \<open>\<^verbatim>\<open>str.upper()\<close> on ASCII text: the 26 lower-case letters are mapped, every other
  character is kept.\<close>

definition py_upper_char :: "char \<Rightarrow> char" where
  "py_upper_char c = (case map_of (zip lower_chars upper_chars) c of Some u \<Rightarrow> u | None \<Rightarrow> c)"

definition py_upper :: "string \<Rightarrow> string" where
  "py_upper s = map py_upper_char s"

section \<open>Identifier generator\<close>

text \<open>The date part of \<^verbatim>\<open>datetime.now()\<close>.\<close>

record date =
  year :: nat
  month :: nat
  day :: nat

text \<open>Decimal rendering of a natural number, most significant digit first.\<close>

fun dec_digits :: "nat \<Rightarrow> nat list" where
  "dec_digits n = (if n < 10 then [n] else dec_digits (n div 10) @ [n mod 10])"

declare dec_digits.simps [simp del]

definition digit_char :: "nat \<Rightarrow> char" where
  "digit_char d = digit_chars ! d"

text \<open>A zero-padded decimal field of minimum width \<open>w\<close>, as \<^verbatim>\<open>%m\<close> and \<^verbatim>\<open>%d\<close> (width 2)
  and \<^verbatim>\<open>%Y\<close> (width 4, following the format table of the Python documentation).\<close>

definition zero_pad :: "nat \<Rightarrow> nat \<Rightarrow> string" where
  "zero_pad w n = (let ds = map digit_char (dec_digits n)
                   in replicate (w - length ds) (CHR ''0'') @ ds)"

text \<open>\<^verbatim>\<open>strftime("%Y%m%d")\<close>\<close>

definition strftime_Ymd :: "date \<Rightarrow> string" where
  "strftime_Ymd d = zero_pad 4 (year d) @ zero_pad 2 (month d) @ zero_pad 2 (day d)"

text \<open>\<^verbatim>\<open>uuid.uuid4().hex\<close>: the 128-bit value of the UUID printed with \<^verbatim>\<open>'%032x'\<close>,
  32 lower-case hexadecimal digits, most significant nibble first.\<close>

type_synonym uuid = "128 word"

definition hex_chars :: string where
  "hex_chars = ''0123456789abcdef''"

definition nibble :: "uuid \<Rightarrow> nat \<Rightarrow> nat" where
  "nibble u i = unat (drop_bit (4 * (31 - i)) u AND 15)"

definition uuid_hex :: "uuid \<Rightarrow> string" where
  "uuid_hex u = map (\<lambda>i. hex_chars ! nibble u i) [0..<32]"

text \<open>
  \<^verbatim>\<open>
  def generate_trace_id():
      date_str = datetime.now().strftime("%Y%m%d")
      rand = uuid.uuid4().hex[:6].upper()
      return f"P{date_str}{rand}"
  \<close>
  The clock reading and the UUID drawn are the two inputs from the environment.
\<close>

definition generate_trace_id :: "date \<Rightarrow> uuid \<Rightarrow> string" where
  "generate_trace_id today u =
     (let date_str = strftime_Ymd today;
          rand = py_upper (take 6 (uuid_hex u))
      in ''P'' @ date_str @ rand)"

text \<open>The pattern of the specification: \<open>P\<close>, eight digits, six upper-case
  alphanumerics.\<close>

definition matches_trace_pattern :: "string \<Rightarrow> bool" where
  "matches_trace_pattern s =
     (length s = 15 \<and> take 1 s = ''P'' \<and> list_all is_digit (take 8 (drop 1 s))
      \<and> list_all is_upper_alnum (drop 9 s))"

text \<open>Reading a digit string back as a number.\<close>

definition digit_value :: "char \<Rightarrow> nat" where
  "digit_value c = (case map_of (zip digit_chars [0..<10]) c of Some d \<Rightarrow> d | None \<Rightarrow> 0)"

definition nat_of_digits :: "string \<Rightarrow> nat" where
  "nat_of_digits s = foldl (\<lambda>acc c. 10 * acc + digit_value c) 0 s"

text \<open>The sixteen upper-case hexadecimal digits.\<close>

definition upper_hex_chars :: string where
  "upper_hex_chars = ''0123456789ABCDEF''"

text \<open>
  A calendar date as \<^verbatim>\<open>datetime.now()\<close> returns it today: a four-digit year (for which
  the rendering of \<^verbatim>\<open>%Y\<close> does not depend on the padding the C library applies to
  shorter years), a month and a day of the month.
\<close>

definition current_date :: "date \<Rightarrow> bool" where
  "current_date d =
     (1000 \<le> year d \<and> year d \<le> 9999 \<and> 1 \<le> month d \<and> month d \<le> 12
      \<and> 1 \<le> day d \<and> day d \<le> 31)"

section \<open>Errors\<close>

text \<open>
  The exceptions a request can end with. \<open>IntegrityError\<close> is what the store raises for a
  violated \<^verbatim>\<open>nullable=False\<close> or \<^verbatim>\<open>unique=True\<close> column constraint; an exception that
  leaves a view function is answered by Flask with status 500.
\<close>

datatype db_constraint = NotNull | Unique

datatype error =
    ValueError
  | OverflowError
  | IntegrityError db_constraint
  | OperationalError
  | OSError
  | DataOverflowError

section \<open>Integer coercion of a form value\<close>

text \<open>
  \<^verbatim>\<open>int(s)\<close> for an ASCII string \<open>s\<close>, base 10: optional white space (tab, line feed,
  vertical tab, form feed, carriage return, space), an optional sign, decimal digits that
  may be separated by single underscores, optional white space. Anything else raises
  \<^verbatim>\<open>ValueError\<close>, and so does a numeral of more than 4300 digits (the default limit of
  the interpreter).
\<close>

definition int_space_chars :: string where
  "int_space_chars = [CHR 0x09, CHR 0x0A, CHR 0x0B, CHR 0x0C, CHR 0x0D, CHR 0x20]"

definition py_isspace :: "char \<Rightarrow> bool" where
  "py_isspace c = (c \<in> set int_space_chars)"

definition is_digit_or_underscore :: "char \<Rightarrow> bool" where
  "is_digit_or_underscore c = (is_digit c \<or> c = CHR ''_'')"

fun double_underscore :: "string \<Rightarrow> bool" where
  "double_underscore (a # b # r) =
     ((a = CHR ''_'' \<and> b = CHR ''_'') \<or> double_underscore (b # r))"
| "double_underscore r = False"

definition py_int_ascii :: "string \<Rightarrow> error + int" where
  "py_int_ascii s =
     (let s1 = dropWhile py_isspace s;
          neg = (take 1 s1 = ''-'');
          s2 = (if take 1 s1 = ''+'' \<or> take 1 s1 = ''-'' then drop 1 s1 else s1);
          body = takeWhile is_digit_or_underscore s2;
          rest = dropWhile is_digit_or_underscore s2;
          ds = filter is_digit body
      in if body = [] \<or> take 1 body = ''_'' \<or> last body = CHR ''_'' \<or> double_underscore body
            \<or> \<not> list_all py_isspace rest \<or> 4300 < length ds
         then Inl ValueError
         else Inr ((if neg then - 1 else 1) * int (nat_of_digits ds)))"

text \<open>
  \<^verbatim>\<open>int(s)\<close> for any string. On a string with a character outside ASCII the result
  depends on the interpreter's Unicode database (\<^verbatim>\<open>int\<close> also takes the white space and
  the decimal digits of other scripts, so that a no-break space before \<^verbatim>\<open>12\<close> or
  full-width digits give a number); that table is not part of the program and is the
  parameter \<open>non_ascii_int\<close>: what \<^verbatim>\<open>int\<close> answers for such a string.
\<close>

definition py_int :: "(string \<Rightarrow> error + int) \<Rightarrow> string \<Rightarrow> error + int" where
  "py_int non_ascii_int s =
     (if list_all is_ascii s then py_int_ascii s else non_ascii_int s)"

text \<open>\<^verbatim>\<open>int(request.form.get("warranty_months") or 0)\<close>: \<^verbatim>\<open>None\<close> and the empty string are
  falsy, so \<^verbatim>\<open>int(0)\<close> is taken; every other string is parsed.\<close>

definition warranty_arg :: "(string \<Rightarrow> error + int) \<Rightarrow> string option \<Rightarrow> error + int" where
  "warranty_arg non_ascii_int v =
     (case v of
        None \<Rightarrow> Inr 0
      | Some s \<Rightarrow> if s = [] then Inr 0 else py_int non_ascii_int s)"

section \<open>Data model\<close>

type_synonym timestamp = nat

text \<open>
  The mapped class \<^verbatim>\<open>ProductTrace\<close>. The column \<^verbatim>\<open>id\<close> is \<open>row_id\<close> here. A nullable
  column is an option; \<open>row_id\<close>, \<open>created_at\<close> and \<open>updated_at\<close> are \<open>None\<close> on a new
  object and filled in when the row is inserted.
\<close>

record ProductTrace =
  row_id :: "nat option"
  trace_id :: string
  product_name :: "string option"
  model :: "string option"
  material :: "string option"
  material_origin :: "string option"
  material_batch :: "string option"
  standard_code :: "string option"
  function_desc :: "string option"
  key_params :: "string option"
  prod_batch :: "string option"
  prod_date :: "string option"
  prod_line :: "string option"
  qc_result :: "string option"
  qc_person :: "string option"
  warranty_months :: "int option"
  qr_image_path :: "string option"
  created_at :: "timestamp option"
  updated_at :: "timestamp option"

text \<open>The mapped class \<^verbatim>\<open>ScanLog\<close>; its columns \<^verbatim>\<open>id\<close> and \<^verbatim>\<open>trace_id\<close> are \<open>log_id\<close> and
  \<open>log_trace_id\<close> here.\<close>

record ScanLog =
  log_id :: "nat option"
  log_trace_id :: string
  ip_address :: "string option"
  user_agent :: "string option"
  scanned_at :: "timestamp option"

text \<open>
  The state outside a request: the two tables, rows in insertion order, and the image
  files written so far (path to the URL the image encodes).
\<close>

record world =
  products :: "ProductTrace list"
  scan_logs :: "ScanLog list"
  files :: "string \<rightharpoonup> string"

text \<open>
  What one request reads from outside the program: the local date of \<^verbatim>\<open>datetime.now()\<close>,
  the value of the \<open>k\<close>-th \<^verbatim>\<open>uuid.uuid4()\<close>, the \<open>k\<close>-th reading of \<^verbatim>\<open>datetime.utcnow\<close>,
  the exception (if any) with which the database refuses the \<open>k\<close>-th commit when its
  transaction starts to write, the exception (if any) raised by \<^verbatim>\<open>os.makedirs\<close>,
  \<^verbatim>\<open>qrcode.make\<close> or \<^verbatim>\<open>img.save\<close>, and what the interpreter's \<^verbatim>\<open>int\<close> answers for a
  string with characters outside ASCII.
\<close>

record env =
  today :: date
  uuid4 :: "nat \<Rightarrow> uuid"
  utcnow :: "nat \<Rightarrow> timestamp"
  commit_fault :: "nat \<Rightarrow> error option"
  encode_fault :: "error option"
  unicode_int :: "string \<Rightarrow> error + int"

datatype http_method = GET | POST

text \<open>The parts of Flask's \<^verbatim>\<open>request\<close> the views read; \<^verbatim>\<open>request.method\<close> is
  \<open>req_method\<close> here.\<close>

record request =
  req_method :: http_method
  form :: "(string \<times> string) list"
  remote_addr :: "string option"
  header_user_agent :: "string option"

text \<open>
  What a view function answers: a rendered template with the rows handed to it, a
  redirect, \<^verbatim>\<open>abort(status)\<close>, or an exception that leaves the function.
\<close>

datatype response =
    Rendered string "ProductTrace list"
  | Redirect string
  | Abort nat
  | Raised error

text \<open>\<^verbatim>\<open>request.form.get(key)\<close>: the first value submitted under the key, or \<^verbatim>\<open>None\<close>.\<close>

definition form_get :: "(string \<times> string) list \<Rightarrow> string \<Rightarrow> string option" where
  "form_get f k = map_of f k"

section \<open>Store operations\<close>

text \<open>The row id SQLite gives to a new row: one more than the largest in the table.\<close>

definition next_id :: "nat option list \<Rightarrow> nat" where
  "next_id ids = fold max (map (\<lambda>i. case i of Some n \<Rightarrow> n | None \<Rightarrow> 0) ids) 0 + 1"

text \<open>SQLite stores an \<^verbatim>\<open>Integer\<close> column in 64 bits; a larger Python integer cannot be
  bound to the statement.\<close>

definition fits_int64 :: "int option \<Rightarrow> bool" where
  "fits_int64 v = (case v of None \<Rightarrow> True | Some n \<Rightarrow> - (2 ^ 63) \<le> n \<and> n < 2 ^ 63)"

text \<open>\<^verbatim>\<open>ProductTrace.query.filter_by(trace_id=trace_id).first()\<close>\<close>

definition find_by_trace_id :: "world \<Rightarrow> string \<Rightarrow> ProductTrace option" where
  "find_by_trace_id w tid = find (\<lambda>p. trace_id p = tid) (products w)"

text \<open>
  \<^verbatim>\<open>db.session.add(product); db.session.commit()\<close> as the \<open>k\<close>-th commit of the request.
  The column defaults read the clock (\<open>t_created\<close>, \<open>t_updated\<close>); the insert is refused
  when \<^verbatim>\<open>product_name\<close> is null or the \<^verbatim>\<open>trace_id\<close> is already in the table. A failed
  commit leaves the tables as they were.
\<close>

definition insert_product ::
    "env \<Rightarrow> nat \<Rightarrow> timestamp \<Rightarrow> timestamp \<Rightarrow> world \<Rightarrow> ProductTrace \<Rightarrow> error + world" where
  "insert_product e k t_created t_updated w p =
     (if \<not> fits_int64 (warranty_months p) then Inl OverflowError
      else case commit_fault e k of
        Some err \<Rightarrow> Inl err
      | None \<Rightarrow>
          if product_name p = None then Inl (IntegrityError NotNull)
          else if trace_id p \<in> set (map trace_id (products w)) then Inl (IntegrityError Unique)
          else Inr (w\<lparr>products := products w @
                    [p\<lparr>row_id := Some (next_id (map row_id (products w))),
                       created_at := Some t_created,
                       updated_at := Some t_updated\<rparr>]\<rparr>))"

text \<open>\<^verbatim>\<open>product.qr_image_path = qr_path; db.session.commit()\<close>: an update of the row with
  the object's primary key, which also refreshes \<^verbatim>\<open>updated_at\<close>.\<close>

definition update_qr_image_path ::
    "env \<Rightarrow> nat \<Rightarrow> timestamp \<Rightarrow> world \<Rightarrow> nat option \<Rightarrow> string \<Rightarrow> error + world" where
  "update_qr_image_path e k t_updated w rid qr_path =
     (case commit_fault e k of
        Some err \<Rightarrow> Inl err
      | None \<Rightarrow>
          Inr (w\<lparr>products :=
                 map (\<lambda>r. if row_id r = rid
                           then r\<lparr>qr_image_path := Some qr_path, updated_at := Some t_updated\<rparr>
                           else r) (products w)\<rparr>))"

text \<open>\<^verbatim>\<open>db.session.add(log); db.session.commit()\<close> as the \<open>k\<close>-th commit of the request.\<close>

definition insert_scan_log :: "env \<Rightarrow> nat \<Rightarrow> timestamp \<Rightarrow> world \<Rightarrow> ScanLog \<Rightarrow> error + world" where
  "insert_scan_log e k t_scanned w l =
     (case commit_fault e k of
        Some err \<Rightarrow> Inl err
      | None \<Rightarrow>
          Inr (w\<lparr>scan_logs := scan_logs w @
                 [l\<lparr>log_id := Some (next_id (map log_id (scan_logs w))),
                    scanned_at := Some t_scanned\<rparr>]\<rparr>))"

section \<open>Code-image encoder\<close>

text \<open>\<^verbatim>\<open>os.path.join(a, b)\<close> on POSIX: an absolute \<open>b\<close> replaces \<open>a\<close>; otherwise the two
  are joined by one separator unless \<open>a\<close> is empty or already ends with it.\<close>

definition os_path_join :: "string \<Rightarrow> string \<Rightarrow> string" where
  "os_path_join a b =
     (if take 1 b = ''/'' then b
      else if a = [] \<or> last a = CHR ''/'' then a @ b
      else a @ ''/'' @ b)"

definition base_url :: string where
  "base_url = ''https://zj-1008.github.io/trace-system/trace_page.html?trace_id=''"

text \<open>
  \<^verbatim>\<open>
  def generate_qr(trace_id):
      url = base_url + trace_id
      save_dir = os.path.join("static", "qrcodes")
      os.makedirs(save_dir, exist_ok=True)
      file_path = os.path.join(save_dir, f"{trace_id}.png")
      img = qrcode.make(url)
      img.save(file_path)
      return file_path
  \<close>
  A failing library call raises before the file is recorded as written.
\<close>

definition generate_qr :: "env \<Rightarrow> string \<Rightarrow> world \<Rightarrow> error + (string \<times> world)" where
  "generate_qr e tid w =
     (let url = base_url @ tid;
          save_dir = os_path_join ''static'' ''qrcodes'';
          file_path = os_path_join save_dir (tid @ ''.png'')
      in case encode_fault e of
           Some err \<Rightarrow> Inl err
         | None \<Rightarrow> Inr (file_path, w\<lparr>files := (files w)(file_path \<mapsto> url)\<rparr>))"

section \<open>Admin ingestion\<close>

text \<open>The constructor call \<^verbatim>\<open>ProductTrace(trace_id=..., ..., warranty_months=int(...))\<close>;
  \<^verbatim>\<open>int\<close> may raise.\<close>

definition new_product ::
    "(string \<Rightarrow> error + int) \<Rightarrow> (string \<times> string) list \<Rightarrow> string \<Rightarrow> error + ProductTrace" where
  "new_product non_ascii_int f tid =
     (case warranty_arg non_ascii_int (form_get f ''warranty_months'') of
        Inl err \<Rightarrow> Inl err
      | Inr months \<Rightarrow>
          Inr \<lparr>row_id = None,
               trace_id = tid,
               product_name = form_get f ''product_name'',
               model = form_get f ''model'',
               material = form_get f ''material'',
               material_origin = form_get f ''material_origin'',
               material_batch = form_get f ''material_batch'',
               standard_code = form_get f ''standard_code'',
               function_desc = form_get f ''function_desc'',
               key_params = form_get f ''key_params'',
               prod_batch = form_get f ''prod_batch'',
               prod_date = form_get f ''prod_date'',
               prod_line = form_get f ''prod_line'',
               qc_result = form_get f ''qc_result'',
               qc_person = form_get f ''qc_person'',
               warranty_months = Some months,
               qr_image_path = None,
               created_at = None,
               updated_at = None\<rparr>)"

text \<open>
  The view \<^verbatim>\<open>admin_new_product\<close>. On POST: generate the identifier, build the object,
  commit the insert (commit 0, clock readings 0 and 1), encode the image, commit the
  image path (commit 1, clock reading 2), redirect to the list. An exception ends the
  request where it is raised; what was committed before stays committed.
\<close>

definition admin_new_product :: "env \<Rightarrow> request \<Rightarrow> world \<Rightarrow> response \<times> world" where
  "admin_new_product e req w =
     (if req_method req = POST then
        let tid = generate_trace_id (today e) (uuid4 e 0)
        in case new_product (unicode_int e) (form req) tid of
             Inl err \<Rightarrow> (Raised err, w)
           | Inr product \<Rightarrow>
               (case insert_product e 0 (utcnow e 0) (utcnow e 1) w product of
                  Inl err \<Rightarrow> (Raised err, w)
                | Inr w1 \<Rightarrow>
                    (case generate_qr e tid w1 of
                       Inl err \<Rightarrow> (Raised err, w1)
                     | Inr (qr_path, w2) \<Rightarrow>
                         (case update_qr_image_path e 1 (utcnow e 2) w2
                                 (Some (next_id (map row_id (products w)))) qr_path of
                            Inl err \<Rightarrow> (Raised err, w2)
                          | Inr w3 \<Rightarrow> (Redirect ''/admin/products'', w3))))
      else (Rendered ''admin_form.html'' [], w))"

section \<open>Public lookup\<close>

text \<open>
  The view \<^verbatim>\<open>trace_page\<close>: look the identifier up; \<^verbatim>\<open>abort(404)\<close> when there is no row;
  otherwise commit a scan log entry (commit 0, clock reading 0) and render the row.
\<close>

definition trace_page :: "env \<Rightarrow> request \<Rightarrow> world \<Rightarrow> string \<Rightarrow> response \<times> world" where
  "trace_page e req w tid =
     (case find_by_trace_id w tid of
        None \<Rightarrow> (Abort 404, w)
      | Some product \<Rightarrow>
          (let log = \<lparr>log_id = None,
                      log_trace_id = tid,
                      ip_address = remote_addr req,
                      user_agent = Some (case header_user_agent req of
                                           Some a \<Rightarrow> a | None \<Rightarrow> []),
                      scanned_at = None\<rparr>
           in case insert_scan_log e 0 (utcnow e 0) w log of
                Inl err \<Rightarrow> (Raised err, w)
              | Inr w1 \<Rightarrow> (Rendered ''trace_page.html'' [product], w1)))"

section \<open>Sample inputs\<close>

text \<open>A date, two UUID values, clock readings, no fault, and an excerpt of the answers of
  \<^verbatim>\<open>int\<close> outside ASCII: a no-break space (bytes C2 A0) before \<^verbatim>\<open>12\<close> gives 12.\<close>

definition sample_env :: env where
  "sample_env =
     \<lparr>today = \<lparr>year = 2025, month = 11, day = 26\<rparr>,
      uuid4 = (\<lambda>k. if k = 0 then 0xA1B2C3D4E5F647088899AABBCCDDEEFF
                    else 0x0D0E0F1011124314851617189ABCDEF0),
      utcnow = (\<lambda>k. 2000 + k),
      commit_fault = (\<lambda>k. None),
      encode_fault = None,
      unicode_int = (\<lambda>s. if s = [CHR 0xC2, CHR 0xA0, CHR ''1'', CHR ''2''] then Inr 12
                         else Inl ValueError)\<rparr>"

text \<open>The same, with a database that refuses every commit.\<close>

definition failing_commit_env :: env where
  "failing_commit_env = sample_env\<lparr>commit_fault := (\<lambda>k. Some OperationalError)\<rparr>"

text \<open>The same, with a clock that reads 500 (earlier than the creation time of the
  stored sample row below).\<close>

definition early_clock_env :: env where
  "early_clock_env = sample_env\<lparr>utcnow := (\<lambda>k. 500)\<rparr>"

text \<open>The same, with a file system that refuses the image.\<close>

definition failing_encode_env :: env where
  "failing_encode_env = sample_env\<lparr>encode_fault := Some OSError\<rparr>"

definition empty_world :: world where
  "empty_world = \<lparr>products = [], scan_logs = [], files = Map.empty\<rparr>"

text \<open>A POST of the admin form with a product name and the given warranty text.\<close>

definition widget_request :: "string \<Rightarrow> request" where
  "widget_request months =
     \<lparr>req_method = POST,
      form = [(''product_name'', ''Widget''), (''warranty_months'', months)],
      remote_addr = Some ''127.0.0.1'',
      header_user_agent = None\<rparr>"

text \<open>A stored row, and a store that holds just this row and its image.\<close>

definition sample_product :: ProductTrace where
  "sample_product =
     \<lparr>row_id = Some 1,
      trace_id = ''P20251126A1B2C3'',
      product_name = Some ''Widget'',
      model = None,
      material = None,
      material_origin = None,
      material_batch = None,
      standard_code = None,
      function_desc = None,
      key_params = None,
      prod_batch = None,
      prod_date = None,
      prod_line = None,
      qc_result = None,
      qc_person = None,
      warranty_months = Some 12,
      qr_image_path = Some ''static/qrcodes/P20251126A1B2C3.png'',
      created_at = Some 1000,
      updated_at = Some 1002\<rparr>"

definition sample_world :: world where
  "sample_world =
     \<lparr>products = [sample_product],
      scan_logs = [],
      files = [''static/qrcodes/P20251126A1B2C3.png'' \<mapsto> base_url @ ''P20251126A1B2C3'']\<rparr>"

text \<open>A GET of a public page, as a scanner sends it.\<close>

definition lookup_request :: request where
  "lookup_request =
     \<lparr>req_method = GET,
      form = [],
      remote_addr = Some ''203.0.113.7'',
      header_user_agent = Some ''Mozilla/5.0''\<rparr>"

section \<open>Properties of the identifier generator\<close>

lemma nibble_lt: "nibble u i < 16"
proof -
  have "unat (drop_bit (4 * (31 - i)) u AND 15) \<le> unat (15 :: uuid)"
    by (rule word_and_le1 [THEN word_le_nat_alt [THEN iffD1]])
  then show ?thesis by (simp add: nibble_def)
qed

lemma upper_hex_all: "\<forall>c \<in> set hex_chars. py_upper_char c \<in> set upper_hex_chars"
  by code_simp

lemma upper_hex_sub: "\<forall>c \<in> set upper_hex_chars. is_upper_alnum c"
  by code_simp

lemma upper_hex_strict: "\<exists>c. is_upper_alnum c \<and> c \<notin> set upper_hex_chars"
proof
  show "is_upper_alnum (CHR ''G'') \<and> CHR ''G'' \<notin> set upper_hex_chars" by code_simp
qed

lemma digit_value_all: "\<forall>d \<in> set [0..<10]. digit_value (digit_char d) = d"
  by code_simp

lemma upper_hex_nibble: "py_upper_char (hex_chars ! nibble u i) \<in> set upper_hex_chars"
proof -
  have "nibble u i < length hex_chars" using nibble_lt [of u i] by (simp add: hex_chars_def)
  then have "hex_chars ! nibble u i \<in> set hex_chars" by (rule nth_mem)
  then show ?thesis using upper_hex_all by blast
qed

lemma length_uuid_hex: "length (uuid_hex u) = 32"
  by (simp add: uuid_hex_def)

lemma rand_length: "length (py_upper (take 6 (uuid_hex u))) = 6"
  by (simp add: py_upper_def length_uuid_hex)

lemma rand_set: "set (py_upper (take 6 (uuid_hex u))) \<subseteq> set upper_hex_chars"
proof -
  have "set (py_upper (uuid_hex u)) \<subseteq> set upper_hex_chars"
    using upper_hex_nibble by (auto simp: py_upper_def uuid_hex_def)
  moreover have "set (py_upper (take 6 (uuid_hex u))) \<subseteq> set (py_upper (uuid_hex u))"
    by (auto simp: py_upper_def dest: in_set_takeD)
  ultimately show ?thesis by blast
qed

lemma dec_digits_lt10: "n < 10 \<Longrightarrow> dec_digits n = [n]"
  by (simp add: dec_digits.simps)

lemma dec_digits_ge10: "10 \<le> n \<Longrightarrow> dec_digits n = dec_digits (n div 10) @ [n mod 10]"
  by (subst dec_digits.simps) simp

lemma dec_digits_all_lt10: "d \<in> set (dec_digits n) \<Longrightarrow> d < 10"
proof (induction n rule: dec_digits.induct)
  case (1 n)
  then show ?case by (cases "n < 10") (auto simp: dec_digits_lt10 dec_digits_ge10)
qed

lemma length_dec_digits: "n < 10 ^ k \<Longrightarrow> 0 < k \<Longrightarrow> length (dec_digits n) \<le> k"
proof (induction n arbitrary: k rule: dec_digits.induct)
  case (1 n)
  show ?case
  proof (cases "n < 10")
    case True
    then show ?thesis using 1(3) by (simp add: dec_digits_lt10)
  next
    case False
    then obtain j where k: "k = Suc j" using 1(3) by (cases k) auto
    from False 1(2) k have "0 < j" by (cases j) auto
    moreover from 1(2) k have "n div 10 < 10 ^ j" by simp
    ultimately have "length (dec_digits (n div 10)) \<le> j" using 1(1) False by simp
    then show ?thesis using False k by (simp add: dec_digits_ge10)
  qed
qed

lemma digit_char_is_digit: "d < 10 \<Longrightarrow> is_digit (digit_char d)"
proof -
  assume "d < 10"
  then have "d < length digit_chars" by (simp add: digit_chars_def)
  then show ?thesis unfolding digit_char_def is_digit_def by (rule nth_mem)
qed

lemma digit_value_digit_char: "d < 10 \<Longrightarrow> digit_value (digit_char d) = d"
  using digit_value_all by simp

lemma length_zero_pad: "n < 10 ^ w \<Longrightarrow> 0 < w \<Longrightarrow> length (zero_pad w n) = w"
  using length_dec_digits [of n w] by (simp add: zero_pad_def Let_def)

lemma zero_pad_digits: "list_all is_digit (zero_pad w n)"
proof -
  have "is_digit (CHR ''0'')" by (simp add: is_digit_def digit_chars_def)
  then show ?thesis
    by (auto simp: zero_pad_def Let_def list_all_iff dest: dec_digits_all_lt10 intro: digit_char_is_digit)
qed

lemma foldl_dec_digits:
  "foldl (\<lambda>acc c. 10 * acc + digit_value c) 0 (map digit_char (dec_digits n)) = n"
proof (induction n rule: dec_digits.induct)
  case (1 n)
  show ?case
  proof (cases "n < 10")
    case True
    then show ?thesis by (simp add: dec_digits_lt10 digit_value_digit_char)
  next
    case False
    then show ?thesis using 1 by (simp add: dec_digits_ge10 digit_value_digit_char)
  qed
qed

lemma foldl_zeros:
  "foldl (\<lambda>acc c. 10 * acc + digit_value c) 0 (replicate k (CHR ''0'')) = 0"
proof -
  have "digit_value (CHR ''0'') = 0" by code_simp
  then show ?thesis by (induction k) simp_all
qed

lemma nat_of_digits_zero_pad: "nat_of_digits (zero_pad w n) = n"
  by (simp add: nat_of_digits_def zero_pad_def Let_def foldl_zeros foldl_dec_digits)

lemma date_part_lengths:
  assumes "current_date d"
  shows "length (zero_pad 4 (year d)) = 4" and "length (zero_pad 2 (month d)) = 2"
    and "length (zero_pad 2 (day d)) = 2"
  using assms by (simp_all add: current_date_def length_zero_pad)

lemma generate_trace_id_parts:
  "generate_trace_id d u =
     CHR ''P'' # zero_pad 4 (year d) @ zero_pad 2 (month d) @ zero_pad 2 (day d)
       @ py_upper (take 6 (uuid_hex u))"
  by (simp add: generate_trace_id_def strftime_Ymd_def Let_def)

lemma rand_upper_alnum: "list_all is_upper_alnum (py_upper (take 6 (uuid_hex u)))"
  using rand_set [of u] upper_hex_sub by (auto simp: list_all_iff)

text \<open>
  C6. For a current calendar date, every identifier the generator returns is the letter
  \<open>P\<close>, then eight digits, then six upper-case alphanumeric characters, 15 characters
  in all; the eight digits are the year, month and day of that date (YYYYMMDD).
\<close>

theorem generate_trace_id_pattern:
  assumes "current_date d"
  shows "matches_trace_pattern (generate_trace_id d u)
         \<and> nat_of_digits (take 4 (drop 1 (generate_trace_id d u))) = year d
         \<and> nat_of_digits (take 2 (drop 5 (generate_trace_id d u))) = month d
         \<and> nat_of_digits (take 2 (drop 7 (generate_trace_id d u))) = day d"
proof -
  note len = date_part_lengths [OF assms]
  have "matches_trace_pattern (generate_trace_id d u)"
    by (simp add: matches_trace_pattern_def generate_trace_id_parts len rand_length
        zero_pad_digits rand_upper_alnum)
  moreover have "take 4 (drop 1 (generate_trace_id d u)) = zero_pad 4 (year d)"
    by (simp add: generate_trace_id_parts len)
  moreover have "take 2 (drop 5 (generate_trace_id d u)) = zero_pad 2 (month d)"
    by (simp add: generate_trace_id_parts len)
  moreover have "take 2 (drop 7 (generate_trace_id d u)) = zero_pad 2 (day d)"
    by (simp add: generate_trace_id_parts len)
  ultimately show ?thesis by (simp add: nat_of_digits_zero_pad)
qed

theorem generate_trace_id_pattern_witness:
  "matches_trace_pattern (generate_trace_id (today sample_env) (uuid4 sample_env 0))
   \<and> nat_of_digits (take 4 (drop 1 (generate_trace_id (today sample_env) (uuid4 sample_env 0)))) = 2025
   \<and> nat_of_digits (take 2 (drop 5 (generate_trace_id (today sample_env) (uuid4 sample_env 0)))) = 11
   \<and> nat_of_digits (take 2 (drop 7 (generate_trace_id (today sample_env) (uuid4 sample_env 0)))) = 26"
proof -
  have "current_date (today sample_env)"
    by (simp add: current_date_def sample_env_def)
  from generate_trace_id_pattern [OF this, of "uuid4 sample_env 0"]
  show ?thesis by (simp add: sample_env_def)
qed

text \<open>
  C9. For a current calendar date, every identifier the generator returns has exactly 15
  characters, and its last six characters are among the sixteen upper-case hexadecimal
  digits \<open>0-9\<close>, \<open>A-F\<close>, which are some but not all of the upper-case alphanumerics.
\<close>

theorem generate_trace_id_hex_suffix:
  assumes "current_date d"
  shows "length (generate_trace_id d u) = 15
         \<and> length (drop 9 (generate_trace_id d u)) = 6
         \<and> set (drop 9 (generate_trace_id d u)) \<subseteq> set upper_hex_chars
         \<and> length upper_hex_chars = 16
         \<and> set upper_hex_chars \<subset> {c. is_upper_alnum c}"
proof -
  note len = date_part_lengths [OF assms]
  have "drop 9 (generate_trace_id d u) = py_upper (take 6 (uuid_hex u))"
    by (simp add: generate_trace_id_parts len)
  moreover have "length (generate_trace_id d u) = 15"
    by (simp add: generate_trace_id_parts len rand_length)
  moreover have "set upper_hex_chars \<subset> {c. is_upper_alnum c}"
    using upper_hex_sub upper_hex_strict by blast
  moreover have "length upper_hex_chars = 16"
    by (simp add: upper_hex_chars_def)
  ultimately show ?thesis by (simp add: rand_length rand_set)
qed

theorem generate_trace_id_hex_suffix_witness:
  "length (generate_trace_id (today sample_env) (uuid4 sample_env 1)) = 15
   \<and> set (drop 9 (generate_trace_id (today sample_env) (uuid4 sample_env 1))) \<subseteq> set upper_hex_chars"
proof -
  have "current_date (today sample_env)"
    by (simp add: current_date_def sample_env_def)
  from generate_trace_id_hex_suffix [OF this, of "uuid4 sample_env 1"]
  show ?thesis by simp
qed

section \<open>Sample evaluations\<close>

lemma sample_gen0: "generate_trace_id (today sample_env) (uuid4 sample_env 0) = ''P20251126A1B2C3''"
  by code_simp

lemma sample_gen1: "generate_trace_id (today sample_env) (uuid4 sample_env 1) = ''P202511260D0E0F''"
  by code_simp

lemma py_int_twelve: "py_int u ''12'' = Inr 12"
proof -
  have "list_all is_ascii ''12''" by (simp add: is_ascii_def)
  moreover have "py_int_ascii ''12'' = Inr 12" by code_simp
  ultimately show ?thesis by (simp add: py_int_def)
qed

lemma py_int_abc: "py_int u ''abc'' = Inl ValueError"
proof -
  have "list_all is_ascii ''abc''" by (simp add: is_ascii_def)
  moreover have "py_int_ascii ''abc'' = Inl ValueError" by code_simp
  ultimately show ?thesis by (simp add: py_int_def)
qed

lemma py_int_nbsp_twelve:
  "py_int (unicode_int sample_env) [CHR 0xC2, CHR 0xA0, CHR ''1'', CHR ''2''] = Inr 12"
  by (simp add: py_int_def is_ascii_def sample_env_def)

section \<open>Lookup by identifier in the product table\<close>

lemma find_append_last:
  "\<forall>x \<in> set xs. \<not> P x \<Longrightarrow> P r \<Longrightarrow> find P (xs @ [r]) = Some r"
  by (induction xs) simp_all

lemma find_unknown_trace_id:
  "tid \<notin> set (map trace_id ps) \<Longrightarrow> find (\<lambda>p. trace_id p = tid) ps = None"
  by (induction ps) auto

lemma find_known_trace_id:
  "tid \<in> set (map trace_id ps) \<Longrightarrow>
   \<exists>p. find (\<lambda>x. trace_id x = tid) ps = Some p \<and> p \<in> set ps \<and> trace_id p = tid"
  by (induction ps) auto

lemma fresh_all_different:
  "tid \<notin> set (map trace_id ps) \<Longrightarrow> \<forall>x \<in> set ps. \<not> trace_id x = tid"
  by (induction ps) auto

lemma find_map_preserving:
  "(\<And>r. trace_id (f r) = trace_id r) \<Longrightarrow>
   find (\<lambda>p. trace_id p = tid) (map f ps) = map_option f (find (\<lambda>p. trace_id p = tid) ps)"
  by (induction ps) simp_all

section \<open>Properties of the public lookup\<close>

text \<open>
  C4. A lookup of an identifier that no row of the product table carries (an identifier
  that was never inserted) is answered with \<^verbatim>\<open>abort(404)\<close> and leaves the whole store
  as it was, so no scan log entry is created.
\<close>

theorem trace_page_unknown_identifier:
  assumes "tid \<notin> set (map trace_id (products w))"
  shows "trace_page e req w tid = (Abort 404, w)"
proof -
  from assms have "find_by_trace_id w tid = None"
    unfolding find_by_trace_id_def by (rule find_unknown_trace_id)
  then show ?thesis by (simp add: trace_page_def)
qed

text \<open>C4 at the lookup of \<open>P20250101AAAAAA\<close> in a store that holds another identifier.\<close>

theorem trace_page_unknown_identifier_witness:
  "trace_page sample_env lookup_request sample_world ''P20250101AAAAAA'' = (Abort 404, sample_world)"
  using trace_page_unknown_identifier [of "''P20250101AAAAAA''" sample_world sample_env lookup_request]
  by (simp add: sample_world_def sample_product_def)

text \<open>
  C5, as stated, does not hold. The identifier of the sample row exists in the store;
  when the database refuses the commit of the log entry, the lookup creates no scan log
  entry; and when the clock reads 500 at the lookup, the one entry created has the scan
  time 500, before the row's creation time 1000.
\<close>

theorem trace_page_logs_one_event_counterexample:
  "''P20251126A1B2C3'' \<in> set (map trace_id (products sample_world))
   \<and> scan_logs (snd (trace_page failing_commit_env lookup_request sample_world
                       ''P20251126A1B2C3'')) = scan_logs sample_world
   \<and> map scanned_at (scan_logs (snd (trace_page early_clock_env lookup_request sample_world
                                      ''P20251126A1B2C3''))) = [Some 500]
   \<and> created_at sample_product = Some 1000"
  by (simp add: trace_page_def insert_scan_log_def Let_def find_by_trace_id_def
      sample_world_def sample_product_def failing_commit_env_def early_clock_env_def
      sample_env_def)

text \<open>
  C5 (amended). For a lookup of an identifier that exists in the store (some row of the
  product table carries it), the row is found, and: when the commit of the log entry
  succeeds, the row is rendered and exactly one scan log entry is appended, which
  carries the looked-up identifier and, as its scan time, the clock reading taken at the
  lookup, so that the scan time is after the row's creation time whenever that reading
  is; when the commit fails, the request ends with the exception and no entry is
  created.
\<close>

theorem trace_page_logs_one_event:
  assumes "tid \<in> set (map trace_id (products w))"
  shows "\<exists>p. find_by_trace_id w tid = Some p \<and> p \<in> set (products w) \<and> trace_id p = tid
           \<and> (commit_fault e 0 = None \<longrightarrow>
                (\<exists>l. trace_page e req w tid
                        = (Rendered ''trace_page.html'' [p], w\<lparr>scan_logs := scan_logs w @ [l]\<rparr>)
                     \<and> log_trace_id l = tid
                     \<and> scanned_at l = Some (utcnow e 0)
                     \<and> (\<forall>c. created_at p = Some c \<and> c < utcnow e 0
                            \<longrightarrow> (\<exists>s. scanned_at l = Some s \<and> c < s))))
           \<and> (commit_fault e 0 = Some err \<longrightarrow> trace_page e req w tid = (Raised err, w))"
proof -
  from assms obtain p where p: "find (\<lambda>x. trace_id x = tid) (products w) = Some p"
      "p \<in> set (products w)" "trace_id p = tid"
    using find_known_trace_id by blast
  then have f: "find_by_trace_id w tid = Some p"
    by (simp add: find_by_trace_id_def)
  define l where "l = \<lparr>log_id = Some (next_id (map log_id (scan_logs w))),
                        log_trace_id = tid,
                        ip_address = remote_addr req,
                        user_agent = Some (case header_user_agent req of
                                             Some a \<Rightarrow> a | None \<Rightarrow> []),
                        scanned_at = Some (utcnow e 0)\<rparr>"
  have ok: "trace_page e req w tid
          = (Rendered ''trace_page.html'' [p], w\<lparr>scan_logs := scan_logs w @ [l]\<rparr>)"
    if "commit_fault e 0 = None"
    using f that by (simp add: trace_page_def insert_scan_log_def Let_def l_def)
  have l: "log_trace_id l = tid" "scanned_at l = Some (utcnow e 0)"
    by (simp_all add: l_def)
  have bad: "trace_page e req w tid = (Raised err, w)" if "commit_fault e 0 = Some err"
    using f that by (simp add: trace_page_def insert_scan_log_def Let_def)
  from ok l have A: "commit_fault e 0 = None \<longrightarrow>
                (\<exists>l. trace_page e req w tid
                        = (Rendered ''trace_page.html'' [p], w\<lparr>scan_logs := scan_logs w @ [l]\<rparr>)
                     \<and> log_trace_id l = tid
                     \<and> scanned_at l = Some (utcnow e 0)
                     \<and> (\<forall>c. created_at p = Some c \<and> c < utcnow e 0
                            \<longrightarrow> (\<exists>s. scanned_at l = Some s \<and> c < s)))"
    by blast
  from bad have B: "commit_fault e 0 = Some err \<longrightarrow> trace_page e req w tid = (Raised err, w)"
    by simp
  show ?thesis
    by (rule exI [of _ p]) (intro conjI f p(2) p(3) A B)
qed

text \<open>The amended C5 at the lookup of the stored sample row, created at 1000, with a
  working database and the clock at 2000.\<close>

theorem trace_page_logs_one_event_witness:
  "\<exists>l. trace_page sample_env lookup_request sample_world ''P20251126A1B2C3''
          = (Rendered ''trace_page.html'' [sample_product],
             sample_world\<lparr>scan_logs := scan_logs sample_world @ [l]\<rparr>)
        \<and> log_trace_id l = ''P20251126A1B2C3'' \<and> scanned_at l = Some 2000
        \<and> (\<exists>s. scanned_at l = Some s \<and> 1000 < s)"
proof -
  have m: "''P20251126A1B2C3'' \<in> set (map trace_id (products sample_world))"
    by (simp add: sample_world_def sample_product_def)
  have f: "find_by_trace_id sample_world ''P20251126A1B2C3'' = Some sample_product"
    by (simp add: find_by_trace_id_def sample_world_def sample_product_def)
  have c: "commit_fault sample_env 0 = None" "utcnow sample_env 0 = 2000"
    by (simp_all add: sample_env_def)
  have t: "created_at sample_product = Some 1000"
    by (simp add: sample_product_def)
  from trace_page_logs_one_event [OF m, of sample_env lookup_request OperationalError] f c
  obtain l where l: "trace_page sample_env lookup_request sample_world ''P20251126A1B2C3''
          = (Rendered ''trace_page.html'' [sample_product],
             sample_world\<lparr>scan_logs := scan_logs sample_world @ [l]\<rparr>)"
      "log_trace_id l = ''P20251126A1B2C3''" "scanned_at l = Some 2000"
      "\<forall>c. created_at sample_product = Some c \<and> c < 2000
          \<longrightarrow> (\<exists>s. scanned_at l = Some s \<and> c < s)"
    by auto
  from l(4) t have "\<exists>s. scanned_at l = Some s \<and> 1000 < s" by simp
  with l(1,2,3) show ?thesis by blast
qed

text \<open>
  C10. A lookup, whether the identifier is found or not and whether the log commit
  succeeds or not, leaves every product row and every image file as it was, and leaves
  the scan log either unchanged or extended by exactly one new entry at its end.
\<close>

theorem trace_page_frame:
  "products (snd (trace_page e req w tid)) = products w
   \<and> files (snd (trace_page e req w tid)) = files w
   \<and> (scan_logs (snd (trace_page e req w tid)) = scan_logs w
      \<or> (\<exists>l. scan_logs (snd (trace_page e req w tid)) = scan_logs w @ [l]))"
  by (simp add: trace_page_def insert_scan_log_def Let_def split: option.splits)

text \<open>C10 at the lookup of the stored sample row: the product table is the same and the
  scan log has grown by one entry.\<close>

theorem trace_page_frame_witness:
  "products (snd (trace_page sample_env lookup_request sample_world ''P20251126A1B2C3''))
     = [sample_product]
   \<and> (\<exists>l. scan_logs (snd (trace_page sample_env lookup_request sample_world ''P20251126A1B2C3''))
            = [l])"
proof -
  have "scan_logs (snd (trace_page sample_env lookup_request sample_world ''P20251126A1B2C3''))
          \<noteq> scan_logs sample_world"
    by (simp add: trace_page_def insert_scan_log_def Let_def find_by_trace_id_def
        sample_world_def sample_product_def sample_env_def)
  with trace_page_frame [of sample_env lookup_request sample_world "''P20251126A1B2C3''"]
  show ?thesis by (simp add: sample_world_def)
qed

text \<open>
  C2, as stated, does not hold: the sample row is found, the database refuses the commit
  of the scan log entry, and the request ends with that exception instead of the row.
\<close>

theorem trace_page_log_failure_counterexample:
  "find_by_trace_id sample_world ''P20251126A1B2C3'' = Some sample_product
   \<and> trace_page failing_commit_env lookup_request sample_world ''P20251126A1B2C3''
       = (Raised OperationalError, sample_world)"
  by (simp add: trace_page_def insert_scan_log_def Let_def find_by_trace_id_def
      sample_world_def sample_product_def failing_commit_env_def sample_env_def)

text \<open>
  C2 (amended). For a lookup that finds a row: when the commit of the scan log entry
  fails, the request fails with the exception of that commit, the caller does not receive
  the row, and the store is as it was; when the commit succeeds, the caller receives the
  row that was fetched.
\<close>

theorem trace_page_log_failure:
  assumes "find_by_trace_id w tid = Some p"
  shows "(commit_fault e 0 = Some err \<longrightarrow> trace_page e req w tid = (Raised err, w))
         \<and> (commit_fault e 0 = None \<longrightarrow>
              fst (trace_page e req w tid) = Rendered ''trace_page.html'' [p])"
  using assms by (simp add: trace_page_def insert_scan_log_def Let_def)

text \<open>The amended C2 at the sample row, once with a failing and once with a working
  database.\<close>

theorem trace_page_log_failure_witness:
  "trace_page failing_commit_env lookup_request sample_world ''P20251126A1B2C3''
     = (Raised OperationalError, sample_world)
   \<and> fst (trace_page sample_env lookup_request sample_world ''P20251126A1B2C3'')
     = Rendered ''trace_page.html'' [sample_product]"
proof -
  have f: "find_by_trace_id sample_world ''P20251126A1B2C3'' = Some sample_product"
    by (simp add: find_by_trace_id_def sample_world_def sample_product_def)
  have "commit_fault failing_commit_env 0 = Some OperationalError"
    by (simp add: failing_commit_env_def)
  moreover have "commit_fault sample_env 0 = None"
    by (simp add: sample_env_def)
  ultimately show ?thesis
    using trace_page_log_failure [OF f, of failing_commit_env OperationalError lookup_request]
      trace_page_log_failure [OF f, of sample_env OperationalError lookup_request]
    by simp
qed

section \<open>Properties of the code-image encoder\<close>

text \<open>
  C7. Two successful calls of the encoder with the same identifier, in any two
  environments and stores, return the same path; the path is computed from the
  identifier alone, and for an identifier that does not begin with a slash (as every
  trace identifier, which begins with \<open>P\<close>) it is \<open>static/qrcodes/<identifier>.png\<close>.
\<close>

theorem generate_qr_path_deterministic:
  assumes "generate_qr e1 tid w1 = Inr (p1, w1')"
    and "generate_qr e2 tid w2 = Inr (p2, w2')"
  shows "p1 = p2
         \<and> p1 = os_path_join (os_path_join ''static'' ''qrcodes'') (tid @ ''.png'')
         \<and> (take 1 tid \<noteq> ''/'' \<longrightarrow> p1 = ''static/qrcodes/'' @ tid @ ''.png'')"
proof -
  have "take 1 tid \<noteq> ''/'' \<Longrightarrow> take 1 (tid @ ''.png'') \<noteq> ''/''"
    by (cases tid) simp_all
  then show ?thesis using assms
    by (auto simp: generate_qr_def Let_def os_path_join_def split: option.splits)
qed

text \<open>C7 at the sample identifier: a first call on the empty store and a second call
  on the store that the first call left.\<close>

theorem generate_qr_path_deterministic_witness:
  "generate_qr sample_env ''P20251126A1B2C3'' empty_world
     = Inr (''static/qrcodes/P20251126A1B2C3.png'', sample_world\<lparr>products := []\<rparr>)
   \<and> generate_qr sample_env ''P20251126A1B2C3'' sample_world
     = Inr (''static/qrcodes/P20251126A1B2C3.png'', sample_world)"
proof -
  have a: "generate_qr sample_env ''P20251126A1B2C3'' empty_world
     = Inr (''static/qrcodes/P20251126A1B2C3.png'', sample_world\<lparr>products := []\<rparr>)"
    by (simp add: generate_qr_def Let_def os_path_join_def sample_env_def empty_world_def
        sample_world_def)
  have b: "generate_qr sample_env ''P20251126A1B2C3'' sample_world
     = Inr (''static/qrcodes/P20251126A1B2C3.png'', sample_world)"
    by (simp add: generate_qr_def Let_def os_path_join_def sample_env_def sample_world_def)
  from generate_qr_path_deterministic [OF a b] a b show ?thesis by simp
qed

section \<open>Properties of the admin ingestion\<close>

lemma new_product_fields:
  assumes "warranty_arg u (form_get f ''warranty_months'') = Inr m"
  shows "\<exists>p. new_product u f tid = Inr p \<and> trace_id p = tid
             \<and> product_name p = form_get f ''product_name''
             \<and> warranty_months p = Some m \<and> qr_image_path p = None"
  using assms by (simp add: new_product_def)

lemma new_product_error:
  assumes "warranty_arg u (form_get f ''warranty_months'') = Inl err"
  shows "new_product u f tid = Inl err"
  using assms by (simp add: new_product_def)

lemma insert_product_ok:
  assumes "fits_int64 (warranty_months p)" and "commit_fault e k = None"
    and "product_name p \<noteq> None" and "trace_id p \<notin> set (map trace_id (products w))"
  shows "insert_product e k t1 t2 w p =
           Inr (w\<lparr>products := products w @
                  [p\<lparr>row_id := Some (next_id (map row_id (products w))),
                     created_at := Some t1, updated_at := Some t2\<rparr>]\<rparr>)"
  using assms by (simp add: insert_product_def)

lemma insert_product_duplicate:
  assumes "trace_id p \<in> set (map trace_id (products w))"
  shows "\<exists>err. insert_product e k t1 t2 w p = Inl err"
  using assms by (simp add: insert_product_def split: option.splits)

lemma insert_product_duplicate_unique:
  assumes "trace_id p \<in> set (map trace_id (products w))"
    and "fits_int64 (warranty_months p)" and "commit_fault e k = None"
    and "product_name p \<noteq> None"
  shows "insert_product e k t1 t2 w p = Inl (IntegrityError Unique)"
  using assms by (simp add: insert_product_def)

lemma admin_after_insert:
  assumes "req_method req = POST"
    and "new_product (unicode_int e) (form req) (generate_trace_id (today e) (uuid4 e 0)) = Inr p"
    and "insert_product e 0 (utcnow e 0) (utcnow e 1) w p = Inr w1"
  shows "\<exists>upd. products (snd (admin_new_product e req w)) = map upd (products w1)
               \<and> (\<forall>r. trace_id (upd r) = trace_id r
                      \<and> product_name (upd r) = product_name r
                      \<and> warranty_months (upd r) = warranty_months r)"
proof (cases "encode_fault e")
  case (Some err)
  then have "snd (admin_new_product e req w) = w1"
    using assms by (simp add: admin_new_product_def Let_def generate_qr_def)
  then have "products (snd (admin_new_product e req w)) = map (\<lambda>r. r) (products w1)"
    by simp
  then show ?thesis by blast
next
  case None
  note enc = this
  define w2 where "w2 = w1\<lparr>files := (files w1)
      (os_path_join (os_path_join ''static'' ''qrcodes'')
         (generate_trace_id (today e) (uuid4 e 0) @ ''.png'')
       \<mapsto> base_url @ generate_trace_id (today e) (uuid4 e 0))\<rparr>"
  show ?thesis
  proof (cases "commit_fault e 1")
    case (Some err)
    then have "snd (admin_new_product e req w) = w2"
      using assms enc
      by (simp add: admin_new_product_def Let_def generate_qr_def update_qr_image_path_def w2_def)
    then have "products (snd (admin_new_product e req w)) = map (\<lambda>r. r) (products w1)"
      by (simp add: w2_def)
    then show ?thesis by blast
  next
    case None
    define upd where "upd = (\<lambda>r::ProductTrace. if row_id r = Some (next_id (map row_id (products w)))
        then r\<lparr>qr_image_path := Some (os_path_join (os_path_join ''static'' ''qrcodes'')
                   (generate_trace_id (today e) (uuid4 e 0) @ ''.png'')),
               updated_at := Some (utcnow e 2)\<rparr>
        else r)"
    have "products (snd (admin_new_product e req w)) = map upd (products w1)"
      using assms enc None
      by (simp add: admin_new_product_def Let_def generate_qr_def update_qr_image_path_def upd_def)
    moreover have "\<forall>r. trace_id (upd r) = trace_id r \<and> product_name (upd r) = product_name r
                       \<and> warranty_months (upd r) = warranty_months r"
      by (simp add: upd_def)
    ultimately show ?thesis by blast
  qed
qed

text \<open>
  C8. In a submission whose insert is committed (the warranty text is coerced to a
  64-bit integer, a product name is present, the generated identifier is new and the
  database accepts the first commit), a failure of the image encoding ends the request
  with the encoder's exception and leaves the store with the new row appended: the row
  is found under its identifier, has the submitted name and warranty, and has no image
  path.
\<close>

theorem admin_encode_failure_keeps_record:
  assumes "req_method req = POST"
    and "warranty_arg (unicode_int e) (form_get (form req) ''warranty_months'') = Inr m"
    and "fits_int64 (Some m)"
    and "form_get (form req) ''product_name'' = Some name"
    and "generate_trace_id (today e) (uuid4 e 0) \<notin> set (map trace_id (products w))"
    and "commit_fault e 0 = None"
    and "encode_fault e = Some err"
  shows "\<exists>row. admin_new_product e req w = (Raised err, w\<lparr>products := products w @ [row]\<rparr>)
           \<and> find_by_trace_id (w\<lparr>products := products w @ [row]\<rparr>)
                (generate_trace_id (today e) (uuid4 e 0)) = Some row
           \<and> trace_id row = generate_trace_id (today e) (uuid4 e 0)
           \<and> product_name row = Some name
           \<and> warranty_months row = Some m
           \<and> qr_image_path row = None"
proof -
  define tid where "tid = generate_trace_id (today e) (uuid4 e 0)"
  obtain p where p: "new_product (unicode_int e) (form req) tid = Inr p" "trace_id p = tid"
      "product_name p = form_get (form req) ''product_name''"
      "warranty_months p = Some m" "qr_image_path p = None"
    using new_product_fields [OF assms(2)] by blast
  define row where "row = p\<lparr>row_id := Some (next_id (map row_id (products w))),
                             created_at := Some (utcnow e 0), updated_at := Some (utcnow e 1)\<rparr>"
  have ins: "insert_product e 0 (utcnow e 0) (utcnow e 1) w p
               = Inr (w\<lparr>products := products w @ [row]\<rparr>)"
    unfolding row_def using assms(3,4,5,6) p
    by (intro insert_product_ok) (simp_all add: tid_def)
  have "admin_new_product e req w = (Raised err, w\<lparr>products := products w @ [row]\<rparr>)"
    using assms(1,7) p(1) ins
    by (simp add: admin_new_product_def Let_def generate_qr_def tid_def [symmetric])
  moreover have t: "trace_id row = tid" by (simp add: row_def p)
  moreover have "find_by_trace_id (w\<lparr>products := products w @ [row]\<rparr>) tid = Some row"
  proof -
    have "\<forall>x \<in> set (products w). \<not> trace_id x = tid"
      unfolding tid_def using assms(5) by (rule fresh_all_different)
    then have "find (\<lambda>x. trace_id x = tid) (products w @ [row]) = Some row"
      using t by (rule find_append_last)
    then show ?thesis by (simp add: find_by_trace_id_def)
  qed
  moreover have "product_name row = Some name" by (simp add: row_def p assms(4))
  moreover have "warranty_months row = Some m" by (simp add: row_def p)
  moreover have "qr_image_path row = None" by (simp add: row_def p)
  ultimately show ?thesis unfolding tid_def by blast
qed

text \<open>C8 at a submission on the empty store with a file system that refuses the
  image.\<close>

theorem admin_encode_failure_keeps_record_witness:
  "\<exists>row. admin_new_product failing_encode_env (widget_request []) empty_world
            = (Raised OSError, empty_world\<lparr>products := [row]\<rparr>)
         \<and> find_by_trace_id (empty_world\<lparr>products := [row]\<rparr>) ''P20251126A1B2C3'' = Some row
         \<and> product_name row = Some ''Widget''
         \<and> warranty_months row = Some 0
         \<and> qr_image_path row = None"
proof -
  have g: "generate_trace_id (today failing_encode_env) (uuid4 failing_encode_env 0)
             = ''P20251126A1B2C3''"
    using sample_gen0 by (simp add: failing_encode_env_def)
  have "req_method (widget_request []) = POST"
    by (simp add: widget_request_def)
  moreover have "warranty_arg (unicode_int failing_encode_env) (form_get (form (widget_request [])) ''warranty_months'') = Inr 0"
    by (simp add: widget_request_def form_get_def warranty_arg_def)
  moreover have "fits_int64 (Some 0)"
    by (simp add: fits_int64_def)
  moreover have "form_get (form (widget_request [])) ''product_name'' = Some ''Widget''"
    by (simp add: widget_request_def form_get_def)
  moreover have "generate_trace_id (today failing_encode_env) (uuid4 failing_encode_env 0)
                   \<notin> set (map trace_id (products empty_world))"
    by (simp add: empty_world_def)
  moreover have "commit_fault failing_encode_env 0 = None"
    by (simp add: failing_encode_env_def sample_env_def)
  moreover have "encode_fault failing_encode_env = Some OSError"
    by (simp add: failing_encode_env_def)
  ultimately have "\<exists>row. admin_new_product failing_encode_env (widget_request []) empty_world
            = (Raised OSError, empty_world\<lparr>products := products empty_world @ [row]\<rparr>)
         \<and> find_by_trace_id (empty_world\<lparr>products := products empty_world @ [row]\<rparr>)
              (generate_trace_id (today failing_encode_env) (uuid4 failing_encode_env 0)) = Some row
         \<and> trace_id row = generate_trace_id (today failing_encode_env) (uuid4 failing_encode_env 0)
         \<and> product_name row = Some ''Widget''
         \<and> warranty_months row = Some 0
         \<and> qr_image_path row = None"
    by (rule admin_encode_failure_keeps_record)
  then show ?thesis unfolding g by (auto simp: empty_world_def)
qed

text \<open>
  C3, as stated, does not hold: the first identifier generated is the one of the stored
  sample row, a second draw would give an identifier that is not in the store, and the
  request ends with the uniqueness violation of the first insert, the store as it was.
\<close>

theorem admin_duplicate_identifier_counterexample:
  "admin_new_product sample_env (widget_request ''12'') sample_world
     = (Raised (IntegrityError Unique), sample_world)
   \<and> generate_trace_id (today sample_env) (uuid4 sample_env 1)
       \<notin> set (map trace_id (products sample_world))"
proof -
  have "generate_trace_id (today sample_env) (uuid4 sample_env 0)
          \<in> set (map trace_id (products sample_world))"
    by (simp add: sample_gen0 sample_world_def sample_product_def)
  moreover have "new_product (unicode_int sample_env) (form (widget_request ''12'')) ''P20251126A1B2C3''
                   = Inr (sample_product\<lparr>row_id := None, qr_image_path := None,
                                         created_at := None, updated_at := None\<rparr>)"
    by (simp add: new_product_def widget_request_def form_get_def warranty_arg_def
        sample_product_def py_int_twelve)
  ultimately have "admin_new_product sample_env (widget_request ''12'') sample_world
     = (Raised (IntegrityError Unique), sample_world)"
    by (simp add: admin_new_product_def Let_def sample_gen0 insert_product_def fits_int64_def
        widget_request_def sample_env_def sample_world_def sample_product_def)
  moreover have "generate_trace_id (today sample_env) (uuid4 sample_env 1)
       \<notin> set (map trace_id (products sample_world))"
    using sample_gen1 by (simp add: sample_world_def sample_product_def)
  ultimately show ?thesis by simp
qed

text \<open>
  C3 (amended). In the admin ingestion flow, when the generated identifier is already in
  the product table, the request fails at that first attempt and the store is as it was:
  no identifier is generated again and no insert is retried, whatever later draws of the
  random source would give. When nothing else fails first (the warranty text is coerced
  to a 64-bit integer, a product name is present, the database accepts the commit), the
  exception is the duplicate-key \<open>IntegrityError\<close>.
\<close>

theorem admin_duplicate_identifier_fails:
  assumes "req_method req = POST"
    and "generate_trace_id (today e) (uuid4 e 0) \<in> set (map trace_id (products w))"
  shows "(\<exists>err. admin_new_product e req w = (Raised err, w))
         \<and> (warranty_arg (unicode_int e) (form_get (form req) ''warranty_months'') = Inr m
              \<and> fits_int64 (Some m)
              \<and> form_get (form req) ''product_name'' = Some name
              \<and> commit_fault e 0 = None
            \<longrightarrow> admin_new_product e req w = (Raised (IntegrityError Unique), w))"
proof -
  define tid where "tid = generate_trace_id (today e) (uuid4 e 0)"
  have first: "\<exists>err. admin_new_product e req w = (Raised err, w)"
  proof (cases "warranty_arg (unicode_int e) (form_get (form req) ''warranty_months'')")
    case (Inl err)
    then have "new_product (unicode_int e) (form req) tid = Inl err" by (rule new_product_error)
    then show ?thesis using assms(1)
      by (simp add: admin_new_product_def Let_def tid_def [symmetric])
  next
    case (Inr m')
    then obtain p where p: "new_product (unicode_int e) (form req) tid = Inr p" "trace_id p = tid"
      using new_product_fields by blast
    with assms(2) have "trace_id p \<in> set (map trace_id (products w))"
      by (simp add: tid_def)
    then obtain err where "insert_product e 0 (utcnow e 0) (utcnow e 1) w p = Inl err"
      using insert_product_duplicate by blast
    then show ?thesis using assms(1) p(1)
      by (simp add: admin_new_product_def Let_def tid_def [symmetric])
  qed
  have second: "admin_new_product e req w = (Raised (IntegrityError Unique), w)"
    if h: "warranty_arg (unicode_int e) (form_get (form req) ''warranty_months'') = Inr m"
      "fits_int64 (Some m)" "form_get (form req) ''product_name'' = Some name"
      "commit_fault e 0 = None"
  proof -
    obtain p where p: "new_product (unicode_int e) (form req) tid = Inr p" "trace_id p = tid"
        "product_name p = form_get (form req) ''product_name''" "warranty_months p = Some m"
      using new_product_fields [OF h(1)] by blast
    have "insert_product e 0 (utcnow e 0) (utcnow e 1) w p = Inl (IntegrityError Unique)"
      using assms(2) p h by (intro insert_product_duplicate_unique) (simp_all add: tid_def)
    then show ?thesis using assms(1) p(1)
      by (simp add: admin_new_product_def Let_def tid_def [symmetric])
  qed
  from first second show ?thesis by blast
qed

text \<open>The amended C3 at a submission that generates the identifier of the stored sample
  row.\<close>

theorem admin_duplicate_identifier_fails_witness:
  "(\<exists>err. admin_new_product sample_env (widget_request ''12'') sample_world
            = (Raised err, sample_world))
   \<and> admin_new_product sample_env (widget_request ''12'') sample_world
       = (Raised (IntegrityError Unique), sample_world)"
proof -
  have "req_method (widget_request ''12'') = POST"
    by (simp add: widget_request_def)
  moreover have "generate_trace_id (today sample_env) (uuid4 sample_env 0)
                   \<in> set (map trace_id (products sample_world))"
    by (simp add: sample_gen0 sample_world_def sample_product_def)
  moreover have "warranty_arg (unicode_int sample_env) (form_get (form (widget_request ''12'')) ''warranty_months'') = Inr 12"
    by (simp add: widget_request_def form_get_def warranty_arg_def py_int_twelve)
  moreover have "fits_int64 (Some 12)"
    by (simp add: fits_int64_def)
  moreover have "form_get (form (widget_request ''12'')) ''product_name'' = Some ''Widget''"
    by (simp add: widget_request_def form_get_def)
  moreover have "commit_fault sample_env 0 = None"
    by (simp add: sample_env_def)
  ultimately show ?thesis
    using admin_duplicate_identifier_fails
      [of "widget_request ''12''" sample_env sample_world 12 "''Widget''"]
    by blast
qed

text \<open>
  C1, as stated, does not hold: a submission whose warranty text is \<open>abc\<close> cannot be
  parsed as an integer, and the request ends with \<open>ValueError\<close> and persists nothing.
\<close>

theorem admin_warranty_default_counterexample:
  "form_get (form (widget_request ''abc'')) ''warranty_months'' = Some ''abc''
   \<and> py_int (unicode_int sample_env) ''abc'' = Inl ValueError
   \<and> admin_new_product sample_env (widget_request ''abc'') empty_world
       = (Raised ValueError, empty_world)"
  by (simp add: admin_new_product_def Let_def new_product_def warranty_arg_def form_get_def
      widget_request_def py_int_abc)

text \<open>
  C1 (amended). For every admin submission (a POST): when the warranty form value is
  absent or the empty string, a product name is present, the generated identifier is new
  and the database accepts the insert, the record is persisted and the row found under
  its identifier has warranty 0; when the warranty form value is a non-empty string that
  \<^verbatim>\<open>int\<close> cannot parse as an integer (it raises \<open>ValueError\<close>), the value is not
  defaulted: the request fails with \<open>ValueError\<close> and the store is as it was.
\<close>

theorem admin_warranty_default:
  assumes "req_method req = POST"
  shows "(form_get (form req) ''warranty_months'' \<in> {None, Some []}
          \<and> form_get (form req) ''product_name'' = Some name
          \<and> generate_trace_id (today e) (uuid4 e 0) \<notin> set (map trace_id (products w))
          \<and> commit_fault e 0 = None
          \<longrightarrow> (\<exists>row. find_by_trace_id (snd (admin_new_product e req w))
                        (generate_trace_id (today e) (uuid4 e 0)) = Some row
                    \<and> product_name row = Some name
                    \<and> warranty_months row = Some 0))
         \<and> (form_get (form req) ''warranty_months'' = Some s \<and> s \<noteq> []
             \<and> py_int (unicode_int e) s = Inl ValueError
          \<longrightarrow> admin_new_product e req w = (Raised ValueError, w))"
proof -
  define tid where "tid = generate_trace_id (today e) (uuid4 e 0)"
  have first: "\<exists>row. find_by_trace_id (snd (admin_new_product e req w)) tid = Some row
                    \<and> product_name row = Some name \<and> warranty_months row = Some 0"
    if h: "form_get (form req) ''warranty_months'' \<in> {None, Some []}"
      "form_get (form req) ''product_name'' = Some name"
      "tid \<notin> set (map trace_id (products w))"
      "commit_fault e 0 = None"
  proof -
    from h(1) have wa: "warranty_arg (unicode_int e) (form_get (form req) ''warranty_months'') = Inr 0"
      by (auto simp: warranty_arg_def)
    obtain p where p: "new_product (unicode_int e) (form req) tid = Inr p" "trace_id p = tid"
        "product_name p = form_get (form req) ''product_name''"
        "warranty_months p = Some 0"
      using new_product_fields [OF wa] by blast
    define row where "row = p\<lparr>row_id := Some (next_id (map row_id (products w))),
                               created_at := Some (utcnow e 0), updated_at := Some (utcnow e 1)\<rparr>"
    have ins: "insert_product e 0 (utcnow e 0) (utcnow e 1) w p
                 = Inr (w\<lparr>products := products w @ [row]\<rparr>)"
      unfolding row_def using h p
      by (intro insert_product_ok) (simp_all add: fits_int64_def)
    obtain upd where upd:
      "products (snd (admin_new_product e req w))
         = map upd (products (w\<lparr>products := products w @ [row]\<rparr>))"
      "\<And>r. trace_id (upd r) = trace_id r"
      "\<And>r. warranty_months (upd r) = warranty_months r"
      "\<And>r. product_name (upd r) = product_name r"
      using admin_after_insert [OF assms p(1) [unfolded tid_def] ins] by blast
    have "\<forall>x \<in> set (products w). \<not> trace_id x = tid"
      using h(3) by (rule fresh_all_different)
    moreover have "trace_id row = tid" by (simp add: row_def p)
    ultimately have "find (\<lambda>x. trace_id x = tid) (products w @ [row]) = Some row"
      by (rule find_append_last)
    moreover have "find (\<lambda>x. trace_id x = tid) (map upd (products w @ [row]))
                     = map_option upd (find (\<lambda>x. trace_id x = tid) (products w @ [row]))"
      by (rule find_map_preserving) (rule upd(2))
    moreover have "products (snd (admin_new_product e req w)) = map upd (products w @ [row])"
      using upd(1) by simp
    ultimately have "find_by_trace_id (snd (admin_new_product e req w)) tid = Some (upd row)"
      unfolding find_by_trace_id_def by (simp only: option.map)
    moreover have "warranty_months (upd row) = Some 0"
      by (simp add: upd(3) row_def p)
    moreover have "product_name (upd row) = Some name"
      by (simp add: upd(4) row_def p h(2))
    ultimately show ?thesis by blast
  qed
  have second: "admin_new_product e req w = (Raised ValueError, w)"
    if h: "form_get (form req) ''warranty_months'' = Some s" "s \<noteq> []"
      "py_int (unicode_int e) s = Inl ValueError"
  proof -
    from h have "warranty_arg (unicode_int e) (form_get (form req) ''warranty_months'') = Inl ValueError"
      by (simp add: warranty_arg_def)
    then have "new_product (unicode_int e) (form req) tid = Inl ValueError" by (rule new_product_error)
    then show ?thesis using assms
      by (simp add: admin_new_product_def Let_def tid_def [symmetric])
  qed
  from first second show ?thesis unfolding tid_def by blast
qed

text \<open>The amended C1 at a submission with an empty warranty text and at one with the
  text \<open>abc\<close>, both on the empty store.\<close>

theorem admin_warranty_default_witness:
  "(\<exists>row. find_by_trace_id (snd (admin_new_product sample_env (widget_request []) empty_world))
             ''P20251126A1B2C3'' = Some row
          \<and> product_name row = Some ''Widget''
          \<and> warranty_months row = Some 0)
   \<and> admin_new_product sample_env (widget_request ''abc'') empty_world
       = (Raised ValueError, empty_world)"
proof -
  have a: "form_get (form (widget_request [])) ''warranty_months'' \<in> {None, Some []}
          \<and> form_get (form (widget_request [])) ''product_name'' = Some ''Widget''
          \<and> generate_trace_id (today sample_env) (uuid4 sample_env 0)
              \<notin> set (map trace_id (products empty_world))
          \<and> commit_fault sample_env 0 = None"
    by (simp add: widget_request_def form_get_def empty_world_def sample_env_def)
  have b: "form_get (form (widget_request ''abc'')) ''warranty_months'' = Some ''abc''
           \<and> ''abc'' \<noteq> [] \<and> py_int (unicode_int sample_env) ''abc'' = Inl ValueError"
    by (simp add: widget_request_def form_get_def py_int_abc)
  have m: "req_method (widget_request []) = POST" "req_method (widget_request ''abc'') = POST"
    by (simp_all add: widget_request_def)
  from admin_warranty_default [OF m(1), of "''Widget''" sample_env empty_world] a
  have "\<exists>row. find_by_trace_id (snd (admin_new_product sample_env (widget_request []) empty_world))
             (generate_trace_id (today sample_env) (uuid4 sample_env 0)) = Some row
          \<and> product_name row = Some ''Widget''
          \<and> warranty_months row = Some 0"
    by blast
  moreover from admin_warranty_default [OF m(2), of "''Widget''" sample_env empty_world "''abc''"] b
  have "admin_new_product sample_env (widget_request ''abc'') empty_world
       = (Raised ValueError, empty_world)"
    by blast
  ultimately show ?thesis by (simp add: sample_gen0)
qed

end
